theory Spec2Isabelle
  imports Complex_Main
begin

section \<open>Python values and exceptions\<close>

text \<open>
  The backend receives JSON from its HTTP clients and from the language model, and treats
  the decoded values as ordinary Python objects. A decoded value is one of Python's
  \<open>None\<close>, \<open>bool\<close>, \<open>int\<close>, \<open>float\<close>, \<open>str\<close>, \<open>list\<close> or \<open>dict\<close>. A finite float is
  kept as the rational number it denotes (every finite double is a rational); the
  non-finite floats are not modelled. A dict is an association list read with
  \<open>map_of\<close>.
\<close>

datatype json =
    JNull
  | JBool bool
  | JInt int
  | JFloat rat
  | JStr string
  | JArr "json list"
  | JObj "(string \<times> json) list"

text \<open>
  The exceptions that the modelled code can raise or catch. \<open>StoreError\<close> stands for the
  exceptions of the store client that are none of the others.
\<close>

datatype py_error = AttributeError | TypeError | ValueError | IndexError | StoreError

definition bind_r :: "'e + 'a \<Rightarrow> ('a \<Rightarrow> 'e + 'b) \<Rightarrow> 'e + 'b" where
  "bind_r r f = (case r of Inl e \<Rightarrow> Inl e | Inr v \<Rightarrow> f v)"

text \<open>\<open>d.get(key, default)\<close>: only a dict has the method.\<close>

fun dict_get :: "json \<Rightarrow> string \<Rightarrow> json \<Rightarrow> py_error + json" where
  "dict_get (JObj kvs) k d = Inr (case map_of kvs k of None \<Rightarrow> d | Some v \<Rightarrow> v)"
| "dict_get _ k d = Inl AttributeError"

text \<open>\<open>v >= k\<close> for an int literal \<open>k\<close>: numbers compare (a bool is the int 0 or 1),
  every other operand raises \<open>TypeError\<close>.\<close>

fun py_ge_int :: "json \<Rightarrow> int \<Rightarrow> py_error + bool" where
  "py_ge_int (JInt n) k = Inr (k \<le> n)"
| "py_ge_int (JFloat x) k = Inr (of_int k \<le> x)"
| "py_ge_int (JBool b) k = Inr (k \<le> (if b then 1 else 0))"
| "py_ge_int _ k = Inl TypeError"



text \<open>\<open>xs[i]\<close>: a negative index counts from the end, an index out of range raises.\<close>

definition py_index :: "'a list \<Rightarrow> int \<Rightarrow> py_error + 'a" where
  "py_index xs i =
     (if 0 \<le> i \<and> i < int (length xs) then Inr (xs ! nat i)
      else if i < 0 \<and> - int (length xs) \<le> i then Inr (xs ! nat (int (length xs) + i))
      else Inl IndexError)"

text \<open>\<open>xs[-n:]\<close> for a positive \<open>n\<close>: the last \<open>n\<close> elements, or all of a shorter list.\<close>

definition py_last_n :: "nat \<Rightarrow> 'a list \<Rightarrow> 'a list" where
  "py_last_n n xs = drop (length xs - n) xs"


section \<open>The document store\<close>

text \<open>
  Firestore is an external service. Each user's \<open>messages\<close> and \<open>moods\<close> subcollection is a
  list of documents; every document carries the server timestamp it was written with. The
  server clock \<open>clock\<close> stamps a new document and then advances. A query without
  \<open>order_by\<close> streams the list as it is; \<open>order_by('timestamp')\<close> sorts it by timestamp,
  ascending, and \<open>limit(n)\<close> keeps the first \<open>n\<close> documents of the ordered result.
\<close>

record doc =
  timestamp :: int

record chat_message = doc +
  sender :: string
  content :: string
  channel :: "string option"

record mood_entry = doc +
  score :: "int option"
  label :: json
  mood_notes :: json

record db =
  chats :: "string \<Rightarrow> chat_message list"
  moods :: "string \<Rightarrow> mood_entry list"
  clock :: int

definition order_by_timestamp :: "('a doc_scheme) list \<Rightarrow> ('a doc_scheme) list" where
  "order_by_timestamp docs = sort_key timestamp docs"

definition limit :: "nat \<Rightarrow> 'a list \<Rightarrow> 'a list" where
  "limit n docs = take n docs"

text \<open>
  \<open>stream()\<close> delivers documents one at a time and may raise on the way. \<open>fails = Some k\<close>
  says that the stream raises once \<open>k\<close> documents have been delivered (\<open>k = 0\<close>: the query
  fails at once). The result is the documents delivered and whether the stream raised.
\<close>

definition stream :: "nat option \<Rightarrow> 'a list \<Rightarrow> 'a list \<times> bool" where
  "stream fails docs =
     (case fails of None \<Rightarrow> (docs, False) | Some k \<Rightarrow> (take k docs, True))"

text \<open>\<open>chat_ref.collection('messages').add(data)\<close> with \<open>SERVER_TIMESTAMP\<close>.\<close>

definition add_message :: "db \<Rightarrow> string \<Rightarrow> chat_message \<Rightarrow> db" where
  "add_message d user_id m =
     d\<lparr>chats := (chats d)(user_id := chats d user_id @ [m\<lparr>timestamp := clock d\<rparr>]),
       clock := clock d + 1\<rparr>"



section \<open>The language-model service (openai\_service.py)\<close>

definition system_prompt :: string where
  "system_prompt = ''\<newline>You are a supportive mental health chatbot designed to provide empathetic \<newline>responses and helpful guidance. You are not a replacement for professional \<newline>mental health services, and you should always recommend seeking professional \<newline>help for serious concerns. Focus on active listening, validation, and \<newline>providing evidence-based coping strategies when appropriate. Never diagnose \<newline>medical conditions or provide medical advice. If a user appears to be in \<newline>crisis or expresses suicidal thoughts, direct them to appropriate crisis \<newline>resources.\<newline>''"

definition connect_fallback :: string where
  "connect_fallback = ''I'm having trouble connecting right now. Please try again in a moment.''"

text \<open>
  The \<open>messages\<close> argument that \<open>get_chat_response\<close> builds for the completion call, as
  (role, content) pairs: the system prompt, the last ten entries of the history it was
  given, and the current message.
\<close>

definition chat_request :: "string \<Rightarrow> (string \<times> string) list \<Rightarrow> (string \<times> string) list" where
  "chat_request text chat_history =
     [(''system'', system_prompt)]
     @ map (\<lambda>(s, c). (if s = ''user'' then ''user'' else ''assistant'', c))
           (py_last_n 10 chat_history)
     @ [(''user'', text)]"

text \<open>
  The completion call is the parameter \<open>api\<close>: it maps the request to
  \<open>Some\<close> of the stripped content of the first choice, or to \<open>None\<close> when anything in the
  \<open>try\<close> block raises. The exception is swallowed and the fallback text is returned as
  an ordinary reply.
\<close>

definition get_chat_response ::
  "((string \<times> string) list \<Rightarrow> string option) \<Rightarrow> string \<Rightarrow> (string \<times> string) list \<Rightarrow> string" where
  "get_chat_response api text chat_history =
     (case api (chat_request text chat_history) of
        Some reply \<Rightarrow> reply
      | None \<Rightarrow> connect_fallback)"

text \<open>
  What the classification call can do: raise (\<open>ApiError\<close>: any exception of the outer
  \<open>try\<close> block other than a JSON decoding error), answer with text that \<open>json.loads\<close>
  rejects (\<open>InvalidJson\<close>), or answer with text that \<open>json.loads\<close> decodes to a value
  (\<open>ValidJson\<close>).
\<close>

datatype classifier_reply = ApiError | InvalidJson | ValidJson json

definition parse_default :: json where
  "parse_default =
     JObj [(''crisis_risk'', JInt 0), (''crisis_type'', JStr ''none''),
           (''recommended_action'', JStr ''monitor'')]"

definition call_default :: json where
  "call_default =
     JObj [(''crisis_risk'', JInt 5), (''crisis_type'', JStr ''other''),
           (''recommended_action'', JStr ''crisis_line'')]"

fun assess_crisis_risk :: "classifier_reply \<Rightarrow> json" where
  "assess_crisis_risk (ValidJson result) = result"
| "assess_crisis_risk InvalidJson = parse_default"
| "assess_crisis_risk ApiError = call_default"

text \<open>
  A well-formed CrisisAssessment, as the prompt of \<open>assess_crisis_risk\<close> and the data
  model describe it: a dict whose \<open>crisis_risk\<close> is an integer from 0 to 10 and whose
  \<open>crisis_type\<close> and \<open>recommended_action\<close> are among the listed strings.
\<close>

definition crisis_types :: "string list" where
  "crisis_types = [''suicidal'', ''self_harm'', ''panic'', ''other'', ''none'']"

definition recommended_actions :: "string list" where
  "recommended_actions =
     [''emergency_services'', ''crisis_line'', ''professional_help'', ''self_care'', ''monitor'']"

fun well_formed_assessment :: "json \<Rightarrow> bool" where
  "well_formed_assessment (JObj kvs) =
     ((case map_of kvs ''crisis_risk'' of
         Some (JInt r) \<Rightarrow> 0 \<le> r \<and> r \<le> 10 | _ \<Rightarrow> False)
      \<and> (case map_of kvs ''crisis_type'' of
         Some (JStr t) \<Rightarrow> t \<in> set crisis_types | _ \<Rightarrow> False)
      \<and> (case map_of kvs ''recommended_action'' of
         Some (JStr a) \<Rightarrow> a \<in> set recommended_actions | _ \<Rightarrow> False))"
| "well_formed_assessment _ = False"


section \<open>The web chat route (routes/chat.py)\<close>

text \<open>
  The outcomes of the external calls of one turn. \<open>read_fails\<close> is the failure point of the
  history stream, \<open>store_user_fails\<close> and \<open>store_reply_fails\<close> say whether the two writes
  raise, \<open>classifier\<close> is the outcome of the classification call and \<open>chat_api\<close> the
  completion call. \<open>find_user\<close> and \<open>new_user\<close> are the results of the two user-directory
  helpers of the messaging channel, which catch their own exceptions.
\<close>

record turn_env =
  read_fails :: "nat option"
  store_user_fails :: bool
  store_reply_fails :: bool
  classifier :: classifier_reply
  chat_api :: "(string \<times> string) list \<Rightarrow> string option"
  find_user :: "string \<Rightarrow> string option"
  new_user :: "string \<Rightarrow> string"

datatype chat_response =
    ChatOk string json
  | ChatError nat string
  | ChatUnhandled py_error

definition web_suicide_block :: string where
  "web_suicide_block = ''\<newline>\<newline>**Important**: If you're having thoughts of harming yourself, please contact the National Suicide Prevention Lifeline at 988 or 1-800-273-8255, or text HOME to 741741 to reach the Crisis Text Line.''"

definition web_generic_block :: string where
  "web_generic_block = ''\<newline>\<newline>**Resources**: If you need immediate support, consider contacting a crisis helpline like 988 (National Suicide Prevention Lifeline) or texting HOME to 741741 (Crisis Text Line).''"

text \<open>
  The history query \<open>order_by('timestamp', direction='asc').limit(10).stream()\<close> and the
  loop that copies sender and content of each delivered document.
\<close>

definition history_query :: "db \<Rightarrow> string \<Rightarrow> chat_message list" where
  "history_query d user_id = limit 10 (order_by_timestamp (chats d user_id))"

definition history_entries :: "chat_message list \<Rightarrow> (string \<times> string) list" where
  "history_entries docs = map (\<lambda>m. (sender m, content m)) docs"

text \<open>
  The \<open>chat_history\<close> that \<open>send_message\<close> ends up with: the loop appends inside the
  \<open>try\<close> block, so a stream that raises leaves the entries appended before the failure.
\<close>

definition retrieve_history :: "nat option \<Rightarrow> db \<Rightarrow> string \<Rightarrow> (string \<times> string) list" where
  "retrieve_history fails d user_id =
     history_entries (fst (stream fails (history_query d user_id)))"

text \<open>
  \<open>high_risk\<close> and the resource block. \<open>crisis_assessment.get\<close> raises on a value that is
  not a dict, and the comparison raises on a risk that is not a number.
\<close>

definition high_risk :: "json \<Rightarrow> py_error + bool" where
  "high_risk crisis_assessment =
     bind_r (dict_get crisis_assessment ''crisis_risk'' (JInt 0)) (\<lambda>r. py_ge_int r 7)"

definition append_resources :: "string \<Rightarrow> string \<Rightarrow> json \<Rightarrow> string \<Rightarrow> py_error + string" where
  "append_resources suicide_block generic_block crisis_assessment ai_response =
     bind_r (dict_get crisis_assessment ''crisis_type'' JNull) (\<lambda>crisis_type.
       if crisis_type = JStr ''suicidal'' \<or> crisis_type = JStr ''self_harm''
       then Inr (ai_response @ suicide_block)
       else Inr (ai_response @ generic_block))"

text \<open>
  \<open>send_message\<close>. The history read and both writes sit in their own \<open>try\<close> blocks, so a
  failure there is only logged. The crisis check is outside every \<open>try\<close>: an exception
  there leaves the view (\<open>ChatUnhandled\<close>), after the user's message has been stored.
\<close>

definition send_message ::
  "turn_env \<Rightarrow> db \<Rightarrow> string option \<Rightarrow> string option \<Rightarrow> chat_response \<times> db" where
  "send_message env d user_id text =
     (case (user_id, text) of
        (Some uid, Some msg) \<Rightarrow>
          if uid = [] \<or> msg = [] then (ChatError 400 ''Missing required parameters'', d)
          else
            let chat_history = retrieve_history (read_fails env) d uid;
                d1 = (if store_user_fails env then d
                      else add_message d uid
                             \<lparr>timestamp = 0, sender = ''user'', content = msg, channel = None\<rparr>);
                crisis_assessment = assess_crisis_risk (classifier env)
            in (case high_risk crisis_assessment of
                  Inl e \<Rightarrow> (ChatUnhandled e, d1)
                | Inr risky \<Rightarrow>
                    let ai_response = get_chat_response (chat_api env) msg chat_history
                    in (case (if risky
                              then append_resources web_suicide_block web_generic_block
                                     crisis_assessment ai_response
                              else Inr ai_response) of
                          Inl e \<Rightarrow> (ChatUnhandled e, d1)
                        | Inr final \<Rightarrow>
                            let d2 = (if store_reply_fails env then d1
                                      else add_message d1 uid
                                             \<lparr>timestamp = 0, sender = ''bot'', content = final,
                                              channel = None\<rparr>)
                            in (ChatOk final crisis_assessment, d2)))
      | _ \<Rightarrow> (ChatError 400 ''Missing required parameters'', d))"

text \<open>
  \<open>clear_chat_history\<close>. One query of at most \<open>batch_size\<close> documents is streamed and each
  delivered document is deleted; \<open>fails = Some k\<close> says that the loop raises once \<open>k\<close>
  documents have been deleted.
\<close>

definition batch_size :: nat where
  "batch_size = 100"

datatype clear_response = ClearOk nat | ClearError nat string

definition clear_chat_history :: "nat option \<Rightarrow> db \<Rightarrow> string \<Rightarrow> clear_response \<times> db" where
  "clear_chat_history fails d user_id =
     (if user_id = [] then (ClearError 400 ''User ID is required'', d)
      else
        let docs = limit batch_size (chats d user_id);
            (deleted, raised) = stream fails docs;
            d' = d\<lparr>chats := (chats d)(user_id := drop (length deleted) (chats d user_id))\<rparr>
        in if raised then (ClearError 500 ''Failed to clear chat history'', d')
           else (ClearOk (length deleted), d'))"


section \<open>The messaging channel (services/twilio\_service.py)\<close>

definition processing_fallback :: string where
  "processing_fallback = ''I'm having trouble processing your message right now. Please try again later.''"

definition sms_suicide_block :: string where
  "sms_suicide_block = ''\<newline>\<newline>Important: If you're having thoughts of harming yourself, please contact the National Suicide Prevention Lifeline at 988 or 1-800-273-8255.''"

definition sms_generic_block :: string where
  "sms_generic_block = ''\<newline>\<newline>Resources: If you need immediate support, consider contacting a crisis helpline like 988 (National Suicide Prevention Lifeline).''"

text \<open>
  \<open>process_incoming_message\<close>. The whole body is one \<open>try\<close> block: whichever step raises,
  the function returns the fixed text \<open>processing_fallback\<close>, and the writes made before
  the failure stay in the store. It returns the reply text only.
\<close>

definition process_incoming_message ::
  "turn_env \<Rightarrow> db \<Rightarrow> string \<Rightarrow> string \<Rightarrow> string \<Rightarrow> string \<times> db" where
  "process_incoming_message env d from_number body message_type =
     (let found = find_user env from_number;
          user_id = (case found of
                       Some u \<Rightarrow> if u = [] then new_user env from_number else u
                     | None \<Rightarrow> new_user env from_number);
          (docs, raised) = stream (read_fails env) (history_query d user_id)
      in if raised then (processing_fallback, d)
         else
           let chat_history = history_entries docs
           in if store_user_fails env then (processing_fallback, d)
              else
                let d1 = add_message d user_id
                           \<lparr>timestamp = 0, sender = ''user'', content = body,
                            channel = Some message_type\<rparr>;
                    ai_response = get_chat_response (chat_api env) body chat_history;
                    crisis_assessment = assess_crisis_risk (classifier env)
                in (case bind_r (high_risk crisis_assessment) (\<lambda>risky.
                            if risky
                            then append_resources sms_suicide_block sms_generic_block
                                   crisis_assessment ai_response
                            else Inr ai_response) of
                      Inl e \<Rightarrow> (processing_fallback, d1)
                    | Inr final \<Rightarrow>
                        if store_reply_fails env then (processing_fallback, d1)
                        else (final,
                              add_message d1 user_id
                                \<lparr>timestamp = 0, sender = ''bot'', content = final,
                                 channel = Some message_type\<rparr>)))"


section \<open>The mood routes (routes/mood.py)\<close>

text \<open>
  A mood document or history entry is a \<open>mood_entry\<close>; \<open>score = None\<close> says that the dict
  has no \<open>score\<close> key. The only writer of the repository, \<open>log_mood\<close>, stores Python ints,
  so a present score is an \<open>int\<close>. Python's \<open>/\<close> on ints is kept as the exact quotient, a
  rational; the float the program holds is that quotient rounded to the nearest double.
\<close>

record stats =
  average :: "rat option"
  highest :: "int option"
  lowest :: "int option"
  count :: nat

record trend_info =
  direction :: string
  average :: rat

record insights =
  message :: string
  trends :: "trend_info option"

text \<open>\<open>max(xs)\<close> and \<open>min(xs)\<close> raise \<open>ValueError\<close> on an empty list.\<close>

fun py_max :: "int list \<Rightarrow> py_error + int" where
  "py_max [] = Inl ValueError"
| "py_max (x # xs) = Inr (fold max xs x)"

fun py_min :: "int list \<Rightarrow> py_error + int" where
  "py_min [] = Inl ValueError"
| "py_min (x # xs) = Inr (fold min xs x)"

definition mean :: "int list \<Rightarrow> rat" where
  "mean scores = of_int (sum_list scores) / of_int (int (length scores))"

definition calculate_mood_statistics :: "mood_entry list \<Rightarrow> py_error + stats" where
  "calculate_mood_statistics mood_entries =
     (if mood_entries = []
      then Inr \<lparr>stats.average = None, highest = None, lowest = None, count = 0\<rparr>
      else
        let scores = map (\<lambda>entry. case score entry of None \<Rightarrow> 0 | Some s \<Rightarrow> s) mood_entries
        in bind_r (py_max scores) (\<lambda>hi.
           bind_r (py_min scores) (\<lambda>lo.
             Inr \<lparr>stats.average = Some (mean scores), highest = Some hi, lowest = Some lo,
                  count = length scores\<rparr>)))"

text \<open>
  The trend test of \<open>generate_mood_insights\<close>. The three reads are made before the
  comparisons; Python reads \<open>scores[-2]\<close> only when the first comparison holds, which
  makes no difference under the length guard, where no read raises.
\<close>

definition classify_trend :: "int list \<Rightarrow> py_error + string" where
  "classify_trend scores =
     (if 3 \<le> length scores then
        bind_r (py_index scores (- 1)) (\<lambda>newest.
        bind_r (py_index scores 0) (\<lambda>oldest.
        bind_r (py_index scores (- 2)) (\<lambda>previous.
          if newest > oldest \<and> previous > oldest then Inr ''improving''
          else if newest < oldest \<and> previous < oldest then Inr ''declining''
          else Inr ''stable'')))
      else Inr ''stable'')"

definition insight_message :: "string \<Rightarrow> rat \<Rightarrow> string" where
  "insight_message trend avg_score =
     (if trend = ''improving'' then ''Your mood appears to be improving over the past few days.''
      else if trend = ''declining'' then ''Your mood seems to be lower than usual. Consider engaging in activities that typically boost your mood.''
      else if avg_score \<ge> 7 then ''Your mood has been consistently positive recently.''
      else if avg_score \<le> 4 then ''Your mood has been lower recently. Consider reaching out for support if this continues.''
      else ''Your mood has been relatively stable.'')"

definition insight_scores :: "mood_entry list \<Rightarrow> int list" where
  "insight_scores entries = map (\<lambda>entry. case score entry of None \<Rightarrow> 5 | Some s \<Rightarrow> s) entries"

text \<open>The body of \<open>generate_mood_insights\<close> after the query, on the entries it returned.\<close>

definition generate_mood_insights_body :: "mood_entry list \<Rightarrow> py_error + insights" where
  "generate_mood_insights_body entries =
     (if length entries < 3
      then Inr \<lparr>message = ''Log more moods to receive personalized insights'', trends = None\<rparr>
      else
        let scores = insight_scores entries;
            avg_score = mean scores
        in bind_r (classify_trend scores) (\<lambda>trend.
             Inr \<lparr>message = insight_message trend avg_score,
                  trends = Some \<lparr>direction = trend, trend_info.average = avg_score\<rparr>\<rparr>))"








section \<open>The conversation turn: properties\<close>

text \<open>
  What a turn returns when the assessment is a dict with an integer \<open>crisis_risk\<close>, on the
  web route and on the messaging channel.
\<close>

lemma high_risk_int:
  "map_of kvs ''crisis_risk'' = Some (JInt r) \<Longrightarrow> high_risk (JObj kvs) = Inr (7 \<le> r)"
  by (simp add: high_risk_def bind_r_def)

lemma append_resources_dict:
  "append_resources sb gb (JObj kvs) reply =
     Inr (reply @ (if map_of kvs ''crisis_type'' = Some (JStr ''suicidal'')
                      \<or> map_of kvs ''crisis_type'' = Some (JStr ''self_harm'')
                   then sb else gb))"
  by (cases "map_of kvs ''crisis_type''") (simp_all add: append_resources_def bind_r_def)

lemma send_message_dict:
  assumes "uid \<noteq> []" and "msg \<noteq> []"
    and "assess_crisis_risk (classifier env) = JObj kvs"
    and "map_of kvs ''crisis_risk'' = Some (JInt r)"
  shows "fst (send_message env d (Some uid) (Some msg)) =
     ChatOk (get_chat_response (chat_api env) msg (retrieve_history (read_fails env) d uid)
             @ (if 7 \<le> r
                then (if map_of kvs ''crisis_type'' = Some (JStr ''suicidal'')
                         \<or> map_of kvs ''crisis_type'' = Some (JStr ''self_harm'')
                      then web_suicide_block else web_generic_block)
                else []))
            (JObj kvs)"
  using assms
  by (simp add: send_message_def Let_def high_risk_int append_resources_dict)

lemma process_incoming_message_dict:
  assumes "read_fails env = None" and "\<not> store_user_fails env" and "\<not> store_reply_fails env"
    and "assess_crisis_risk (classifier env) = JObj kvs"
    and "map_of kvs ''crisis_risk'' = Some (JInt r)"
  shows "fst (process_incoming_message env d from_number body message_type) =
     get_chat_response (chat_api env) body
       (retrieve_history None d
          (case find_user env from_number of
             Some u \<Rightarrow> if u = [] then new_user env from_number else u
           | None \<Rightarrow> new_user env from_number))
     @ (if 7 \<le> r
        then (if map_of kvs ''crisis_type'' = Some (JStr ''suicidal'')
                 \<or> map_of kvs ''crisis_type'' = Some (JStr ''self_harm'')
              then sms_suicide_block else sms_generic_block)
        else [])"
  using assms
  by (simp add: process_incoming_message_def Let_def high_risk_int append_resources_dict
      bind_r_def stream_def retrieve_history_def)


text \<open>
  The gate on a turn that runs to its end. For an assessment that is a dict with an integer
  risk, the web route returns the generated reply followed by exactly one resource block
  when the risk is at least 7 (the suicide and self-harm text for the types \<open>suicidal\<close> and
  \<open>self_harm\<close>, the generic text otherwise) and the generated reply alone below 7,
  whatever the outcome of its store calls. The messaging channel does the same, with its
  own wording of the two blocks, when its store calls succeed.
\<close>

lemma gating_when_turn_completes:
  assumes "uid \<noteq> []" and "msg \<noteq> []"
    and "assess_crisis_risk (classifier env) = JObj kvs"
    and "map_of kvs ''crisis_risk'' = Some (JInt r)"
  shows "fst (send_message env d (Some uid) (Some msg)) =
           ChatOk (get_chat_response (chat_api env) msg (retrieve_history (read_fails env) d uid)
                   @ (if 7 \<le> r
                      then (if map_of kvs ''crisis_type'' = Some (JStr ''suicidal'')
                               \<or> map_of kvs ''crisis_type'' = Some (JStr ''self_harm'')
                            then web_suicide_block else web_generic_block)
                      else []))
                  (JObj kvs)
         \<and> (read_fails env = None \<and> \<not> store_user_fails env \<and> \<not> store_reply_fails env \<longrightarrow>
              fst (process_incoming_message env d from_number msg message_type) =
                get_chat_response (chat_api env) msg
                  (retrieve_history None d
                     (case find_user env from_number of
                        Some u \<Rightarrow> if u = [] then new_user env from_number else u
                      | None \<Rightarrow> new_user env from_number))
                @ (if 7 \<le> r
                   then (if map_of kvs ''crisis_type'' = Some (JStr ''suicidal'')
                            \<or> map_of kvs ''crisis_type'' = Some (JStr ''self_harm'')
                         then sms_suicide_block else sms_generic_block)
                   else []))"
  using send_message_dict [OF assms, of d]
    process_incoming_message_dict [OF _ _ _ assms(3,4), of d from_number msg message_type]
  by simp

text \<open>
  Claim C2 at an SMS turn whose assessment is risk 8 of type \<open>suicidal\<close> and whose write of
  the reply fails. The completion answers \<open>Hello\<close> and the block is appended, then the
  write raises inside the one \<open>try\<close> block of \<open>process_incoming_message\<close>: the caller gets
  the fixed processing apology, with no resource block. The web route, on the same
  outcomes, returns the reply followed by the suicide and self-harm block.
\<close>

theorem sms_store_failure_drops_resource_block:
  "fst (process_incoming_message
          \<lparr>read_fails = None, store_user_fails = False, store_reply_fails = True,
           classifier = ValidJson (JObj [(''crisis_risk'', JInt 8), (''crisis_type'', JStr ''suicidal'')]),
           chat_api = (\<lambda>request. Some ''Hello''), find_user = (\<lambda>phone. Some ''u''),
           new_user = (\<lambda>phone. ''n'')\<rparr>
          \<lparr>chats = (\<lambda>u. []), moods = (\<lambda>u. []), clock = 0\<rparr> ''+15550100'' ''hi'' ''sms'')
     = ''I'm having trouble processing your message right now. Please try again later.''
   \<and> ''I'm having trouble processing your message right now. Please try again later.''
       \<noteq> ''Hello'' @ sms_suicide_block
   \<and> fst (send_message
          \<lparr>read_fails = None, store_user_fails = False, store_reply_fails = True,
           classifier = ValidJson (JObj [(''crisis_risk'', JInt 8), (''crisis_type'', JStr ''suicidal'')]),
           chat_api = (\<lambda>request. Some ''Hello''), find_user = (\<lambda>phone. Some ''u''),
           new_user = (\<lambda>phone. ''n'')\<rparr>
          \<lparr>chats = (\<lambda>u. []), moods = (\<lambda>u. []), clock = 0\<rparr> (Some ''u'') (Some ''hi''))
     = ChatOk (''Hello'' @ web_suicide_block)
         (JObj [(''crisis_risk'', JInt 8), (''crisis_type'', JStr ''suicidal'')])"
  by (simp add: process_incoming_message_def send_message_def Let_def stream_def
      history_query_def limit_def order_by_timestamp_def history_entries_def
      retrieve_history_def get_chat_response_def high_risk_int append_resources_dict
      bind_r_def processing_fallback_def)

text \<open>Risk 8 with type \<open>suicidal\<close> appends the specific block; risk 6 appends nothing.\<close>

lemma gating_examples:
  "map (\<lambda>a. fst (send_message
             \<lparr>read_fails = None, store_user_fails = False, store_reply_fails = False,
              classifier = ValidJson a,
              chat_api = (\<lambda>request. Some ''Hello''), find_user = (\<lambda>phone. None),
              new_user = (\<lambda>phone. ''n'')\<rparr>
             \<lparr>chats = (\<lambda>u. []), moods = (\<lambda>u. []), clock = 0\<rparr> (Some ''u'') (Some ''hi'')))
     [JObj [(''crisis_risk'', JInt 8), (''crisis_type'', JStr ''suicidal'')],
      JObj [(''crisis_risk'', JInt 6), (''crisis_type'', JStr ''suicidal'')]]
   = [ChatOk (''Hello'' @ web_suicide_block)
        (JObj [(''crisis_risk'', JInt 8), (''crisis_type'', JStr ''suicidal'')]),
      ChatOk ''Hello'' (JObj [(''crisis_risk'', JInt 6), (''crisis_type'', JStr ''suicidal'')])]"
  by (simp add: send_message_def Let_def high_risk_int append_resources_dict
      get_chat_response_def)

text \<open>
  Claim C1 as stated fails: when the completion call fails and the classifier reports
  risk 8 of type \<open>suicidal\<close>, the turn returns the fallback text followed by the resource
  block, not the fallback text alone.
\<close>

theorem fallback_with_high_risk_counterexample:
  "fst (send_message
          \<lparr>read_fails = None, store_user_fails = False, store_reply_fails = False,
           classifier = ValidJson (JObj [(''crisis_risk'', JInt 8), (''crisis_type'', JStr ''suicidal''),
                                         (''recommended_action'', JStr ''crisis_line'')]),
           chat_api = (\<lambda>request. None), find_user = (\<lambda>phone. None),
           new_user = (\<lambda>phone. ''n'')\<rparr>
          \<lparr>chats = (\<lambda>u. []), moods = (\<lambda>u. []), clock = 0\<rparr> (Some ''u'') (Some ''hi''))
     = ChatOk (connect_fallback @ web_suicide_block)
         (JObj [(''crisis_risk'', JInt 8), (''crisis_type'', JStr ''suicidal''),
                (''recommended_action'', JStr ''crisis_line'')])
   \<and> connect_fallback @ web_suicide_block \<noteq> connect_fallback"
  by (simp add: send_message_def Let_def high_risk_int append_resources_dict
      get_chat_response_def web_suicide_block_def)

text \<open>
  Claim C1, amended. When the completion call of a turn fails, \<open>get_chat_response\<close>
  returns exactly the fixed fallback text. \<open>send_message\<close> returns that text unchanged when
  \<open>crisis_risk\<close> is below 7, and the fallback text followed by the resource block when
  \<open>crisis_risk\<close> is 7 or more: the fallback is an ordinary reply to the risk gate.
\<close>

theorem fallback_on_generation_failure:
  assumes "uid \<noteq> []" and "msg \<noteq> []"
    and "chat_api env (chat_request msg (retrieve_history (read_fails env) d uid)) = None"
    and "assess_crisis_risk (classifier env) = JObj kvs"
    and "map_of kvs ''crisis_risk'' = Some (JInt r)"
  shows "get_chat_response (chat_api env) msg (retrieve_history (read_fails env) d uid)
           = connect_fallback
         \<and> fst (send_message env d (Some uid) (Some msg)) =
             ChatOk (if r < 7 then connect_fallback
                     else connect_fallback
                          @ (if map_of kvs ''crisis_type'' = Some (JStr ''suicidal'')
                                \<or> map_of kvs ''crisis_type'' = Some (JStr ''self_harm'')
                             then web_suicide_block else web_generic_block))
                    (JObj kvs)"
proof -
  have g: "get_chat_response (chat_api env) msg (retrieve_history (read_fails env) d uid)
           = connect_fallback"
    using assms(3) by (simp add: get_chat_response_def)
  show ?thesis
    using send_message_dict [OF assms(1,2,4,5), of d] g by simp
qed

text \<open>Both calls fail: the fallback text is returned with the cautious default assessment.\<close>

theorem fallback_on_generation_failure_witness:
  "''u'' \<noteq> [] \<and> ''hi'' \<noteq> []
   \<and> (\<lambda>request. None :: string option)
        (chat_request ''hi'' (retrieve_history None \<lparr>chats = (\<lambda>u. []), moods = (\<lambda>u. []), clock = 0\<rparr> ''u''))
       = None
   \<and> assess_crisis_risk ApiError = call_default
   \<and> fst (send_message
             \<lparr>read_fails = None, store_user_fails = False, store_reply_fails = False,
              classifier = ApiError,
              chat_api = (\<lambda>request. None), find_user = (\<lambda>phone. None),
              new_user = (\<lambda>phone. ''n'')\<rparr>
             \<lparr>chats = (\<lambda>u. []), moods = (\<lambda>u. []), clock = 0\<rparr> (Some ''u'') (Some ''hi''))
       = ChatOk connect_fallback call_default"
  using fallback_on_generation_failure
    [of "''u''" "''hi''"
        "\<lparr>read_fails = None, store_user_fails = False, store_reply_fails = False,
          classifier = ApiError,
          chat_api = (\<lambda>request. None), find_user = (\<lambda>phone. None),
          new_user = (\<lambda>phone. ''n'')\<rparr>"
        "\<lparr>chats = (\<lambda>u. []), moods = (\<lambda>u. []), clock = 0\<rparr>"
        "[(''crisis_risk'', JInt 5), (''crisis_type'', JStr ''other''),
          (''recommended_action'', JStr ''crisis_line'')]" 5]
  by (simp add: call_default_def)

text \<open>
  The two defaults of the classifier: text that is not JSON gives risk 0, type \<open>none\<close>,
  action \<open>monitor\<close>; a failed call gives risk 5, type \<open>other\<close>, action \<open>crisis_line\<close>. Both
  are well-formed assessments.
\<close>

lemma classifier_defaults:
  "assess_crisis_risk InvalidJson =
     JObj [(''crisis_risk'', JInt 0), (''crisis_type'', JStr ''none''),
           (''recommended_action'', JStr ''monitor'')]
   \<and> assess_crisis_risk ApiError =
     JObj [(''crisis_risk'', JInt 5), (''crisis_type'', JStr ''other''),
           (''recommended_action'', JStr ''crisis_line'')]
   \<and> well_formed_assessment (assess_crisis_risk InvalidJson)
   \<and> well_formed_assessment (assess_crisis_risk ApiError)"
  by (simp add: parse_default_def call_default_def crisis_types_def recommended_actions_def)

text \<open>
  Claim C3 at the completion texts \<open>[]\<close> and \<open>{"crisis_risk": "high"}\<close>. Both are valid
  JSON, so the classifier returns the decoded value as it is: an empty list, which is no
  dict, and a dict whose risk is a string. Neither is a well-formed assessment, and the web
  turn that receives it ends in an exception that nothing catches.
\<close>

theorem classifier_returns_unvalidated_json:
  "assess_crisis_risk (ValidJson (JArr [])) = JArr []
   \<and> \<not> well_formed_assessment (assess_crisis_risk (ValidJson (JArr [])))
   \<and> fst (send_message
             \<lparr>read_fails = None, store_user_fails = False, store_reply_fails = False,
              classifier = ValidJson (JArr []),
              chat_api = (\<lambda>request. Some ''Hello''), find_user = (\<lambda>phone. None),
              new_user = (\<lambda>phone. ''n'')\<rparr>
             \<lparr>chats = (\<lambda>u. []), moods = (\<lambda>u. []), clock = 0\<rparr> (Some ''u'') (Some ''hi''))
       = ChatUnhandled AttributeError
   \<and> \<not> well_formed_assessment
         (assess_crisis_risk (ValidJson (JObj [(''crisis_risk'', JStr ''high'')])))
   \<and> fst (send_message
             \<lparr>read_fails = None, store_user_fails = False, store_reply_fails = False,
              classifier = ValidJson (JObj [(''crisis_risk'', JStr ''high'')]),
              chat_api = (\<lambda>request. Some ''Hello''), find_user = (\<lambda>phone. None),
              new_user = (\<lambda>phone. ''n'')\<rparr>
             \<lparr>chats = (\<lambda>u. []), moods = (\<lambda>u. []), clock = 0\<rparr> (Some ''u'') (Some ''hi''))
       = ChatUnhandled TypeError"
  by (simp add: send_message_def Let_def high_risk_def bind_r_def)

text \<open>
  Claim C4 at a conversation of eleven messages with timestamps 1 to 11. The history that
  reaches the completion request is the ten oldest messages, \<open>m01\<close> to \<open>m10\<close>; the ten
  most recent ones are \<open>m02\<close> to \<open>m11\<close>. The newest stored message is left out.
\<close>

theorem history_is_oldest_ten:
  "retrieve_history None
     \<lparr>chats = (\<lambda>u. map (\<lambda>(t, c). \<lparr>timestamp = t, sender = ''user'', content = c, channel = None\<rparr>)
                 [(1, ''m01''), (2, ''m02''), (3, ''m03''), (4, ''m04''), (5, ''m05''), (6, ''m06''),
                  (7, ''m07''), (8, ''m08''), (9, ''m09''), (10, ''m10''), (11, ''m11'')]),
      moods = (\<lambda>u. []), clock = 12\<rparr> ''u''
     = map (\<lambda>c. (''user'', c))
         [''m01'', ''m02'', ''m03'', ''m04'', ''m05'', ''m06'', ''m07'', ''m08'', ''m09'', ''m10'']
   \<and> history_entries (py_last_n 10 (order_by_timestamp
         (map (\<lambda>(t, c). \<lparr>timestamp = t, sender = ''user'', content = c, channel = None\<rparr>)
                 [(1, ''m01''), (2, ''m02''), (3, ''m03''), (4, ''m04''), (5, ''m05''), (6, ''m06''),
                  (7, ''m07''), (8, ''m08''), (9, ''m09''), (10, ''m10''), (11, ''m11'')])))
     = map (\<lambda>c. (''user'', c))
         [''m02'', ''m03'', ''m04'', ''m05'', ''m06'', ''m07'', ''m08'', ''m09'', ''m10'', ''m11'']
   \<and> chat_request ''hi'' (retrieve_history None
     \<lparr>chats = (\<lambda>u. map (\<lambda>(t, c). \<lparr>timestamp = t, sender = ''user'', content = c, channel = None\<rparr>)
                 [(1, ''m01''), (2, ''m02''), (3, ''m03''), (4, ''m04''), (5, ''m05''), (6, ''m06''),
                  (7, ''m07''), (8, ''m08''), (9, ''m09''), (10, ''m10''), (11, ''m11'')]),
      moods = (\<lambda>u. []), clock = 12\<rparr> ''u'')
     = [(''system'', system_prompt)]
       @ map (\<lambda>c. (''user'', c))
         [''m01'', ''m02'', ''m03'', ''m04'', ''m05'', ''m06'', ''m07'', ''m08'', ''m09'', ''m10'']
       @ [(''user'', ''hi'')]"
  by (simp add: retrieve_history_def history_entries_def history_query_def stream_def limit_def
      order_by_timestamp_def py_last_n_def chat_request_def)

text \<open>The bound of ten entries holds for every store and every outcome of the read.\<close>

lemma history_at_most_ten: "length (retrieve_history fails d user_id) \<le> 10"
  by (auto simp add: retrieve_history_def history_entries_def history_query_def stream_def
      limit_def split: option.split)

text \<open>
  Store failures. On the web route the response does not depend on the outcome of the two
  writes, and a usable assessment always gives a reply; a failed read leaves the entries
  delivered before the failure. On the messaging channel every store failure ends the
  turn with the fixed text \<open>processing_fallback\<close>.
\<close>

lemma high_risk_dict: "high_risk a = Inr h \<Longrightarrow> \<exists>kvs. a = JObj kvs"
  by (cases a) (simp_all add: high_risk_def bind_r_def)

lemma send_message_store_independent:
  "fst (send_message (env\<lparr>store_user_fails := a, store_reply_fails := b\<rparr>) d user_id inbound)
   = fst (send_message env d user_id inbound)"
  by (simp add: send_message_def Let_def split: option.split sum.split)

lemma send_message_completes:
  assumes "uid \<noteq> []" and "msg \<noteq> []"
    and "high_risk (assess_crisis_risk (classifier env)) = Inr h"
  shows "\<exists>reply. fst (send_message env d (Some uid) (Some msg))
           = ChatOk reply (assess_crisis_risk (classifier env))"
proof -
  from high_risk_dict [OF assms(3)] obtain kvs
    where k: "assess_crisis_risk (classifier env) = JObj kvs" by blast
  show ?thesis
    using assms by (simp add: send_message_def Let_def k append_resources_dict)
qed

lemma retrieve_history_failure:
  "retrieve_history (Some k) d uid = history_entries (take k (history_query d uid))"
  by (simp add: retrieve_history_def stream_def)

lemma process_incoming_message_failure:
  assumes "read_fails env \<noteq> None \<or> store_user_fails env \<or> store_reply_fails env"
  shows "fst (process_incoming_message env d from_number body message_type) = processing_fallback"
  using assms
  by (auto simp add: process_incoming_message_def Let_def stream_def
      split: option.split sum.split prod.split)

text \<open>
  Claim C5 at SMS turns with a failing store call. A turn whose calls all succeed answers
  \<open>Hello\<close>. The same turn with a failing write of the inbound message, and the same turn
  with a history read that fails at once, both answer the fixed processing apology: the
  failure is caught by the one \<open>try\<close> block around the whole turn, the history is not
  degraded to the empty one and the generated reply is not returned. The web route, on the
  same failing write, returns \<open>Hello\<close> with the assessment.
\<close>

theorem sms_store_failure_replaces_reply:
  "fst (process_incoming_message
          \<lparr>read_fails = None, store_user_fails = False, store_reply_fails = False,
           classifier = InvalidJson,
           chat_api = (\<lambda>request. Some ''Hello''), find_user = (\<lambda>phone. Some ''u''),
           new_user = (\<lambda>phone. ''n'')\<rparr>
          \<lparr>chats = (\<lambda>u. []), moods = (\<lambda>u. []), clock = 0\<rparr> ''+15550100'' ''hi'' ''sms'')
     = ''Hello''
   \<and> fst (process_incoming_message
          \<lparr>read_fails = None, store_user_fails = True, store_reply_fails = False,
           classifier = InvalidJson,
           chat_api = (\<lambda>request. Some ''Hello''), find_user = (\<lambda>phone. Some ''u''),
           new_user = (\<lambda>phone. ''n'')\<rparr>
          \<lparr>chats = (\<lambda>u. []), moods = (\<lambda>u. []), clock = 0\<rparr> ''+15550100'' ''hi'' ''sms'')
     = ''I'm having trouble processing your message right now. Please try again later.''
   \<and> fst (process_incoming_message
          \<lparr>read_fails = Some 0, store_user_fails = False, store_reply_fails = False,
           classifier = InvalidJson,
           chat_api = (\<lambda>request. Some ''Hello''), find_user = (\<lambda>phone. Some ''u''),
           new_user = (\<lambda>phone. ''n'')\<rparr>
          \<lparr>chats = (\<lambda>u. []), moods = (\<lambda>u. []), clock = 0\<rparr> ''+15550100'' ''hi'' ''sms'')
     = ''I'm having trouble processing your message right now. Please try again later.''
   \<and> fst (send_message
          \<lparr>read_fails = None, store_user_fails = True, store_reply_fails = False,
           classifier = InvalidJson,
           chat_api = (\<lambda>request. Some ''Hello''), find_user = (\<lambda>phone. Some ''u''),
           new_user = (\<lambda>phone. ''n'')\<rparr>
          \<lparr>chats = (\<lambda>u. []), moods = (\<lambda>u. []), clock = 0\<rparr> (Some ''u'') (Some ''hi''))
     = ChatOk ''Hello''
         (JObj [(''crisis_risk'', JInt 0), (''crisis_type'', JStr ''none''),
                (''recommended_action'', JStr ''monitor'')])"
  by (simp add: process_incoming_message_def send_message_def Let_def stream_def
      history_query_def limit_def order_by_timestamp_def history_entries_def
      retrieve_history_def get_chat_response_def parse_default_def high_risk_def bind_r_def
      processing_fallback_def)



section \<open>Clearing a conversation: properties\<close>

text \<open>
  One call deletes the first \<open>batch_size\<close> messages and reports their number; on an empty
  conversation it reports 0 and leaves the store as it is.
\<close>

lemma clear_chat_history_result:
  "user_id \<noteq> [] \<Longrightarrow>
   fst (clear_chat_history None d user_id) = ClearOk (min (length (chats d user_id)) batch_size)
   \<and> chats (snd (clear_chat_history None d user_id)) user_id = drop batch_size (chats d user_id)"
  by (simp add: clear_chat_history_def stream_def limit_def Let_def min_def)

lemma clear_chat_history_empty:
  assumes "user_id \<noteq> []" and "chats d user_id = []"
  shows "clear_chat_history None d user_id = (ClearOk 0, d)"
proof -
  have "(chats d)(user_id := []) = chats d"
    using assms(2) by (metis fun_upd_triv)
  then show ?thesis
    using assms by (simp add: clear_chat_history_def stream_def limit_def Let_def)
qed

text \<open>
  Claim C10 at a conversation of 101 messages: one call reports 100 deleted messages and
  one message is still stored.
\<close>

theorem clear_leaves_messages_beyond_batch:
  "fst (clear_chat_history None
          \<lparr>chats = (\<lambda>u. map (\<lambda>i. \<lparr>timestamp = int i, sender = ''user'', content = ''m'',
                                     channel = None\<rparr>) [0..<101]),
           moods = (\<lambda>u. []), clock = 101\<rparr> ''u'') = ClearOk 100
   \<and> chats (snd (clear_chat_history None
          \<lparr>chats = (\<lambda>u. map (\<lambda>i. \<lparr>timestamp = int i, sender = ''user'', content = ''m'',
                                     channel = None\<rparr>) [0..<101]),
           moods = (\<lambda>u. []), clock = 101\<rparr> ''u'')) ''u''
       = [\<lparr>timestamp = 100, sender = ''user'', content = ''m'', channel = None\<rparr>]"
proof -
  have u: "''u'' \<noteq> []" by simp
  have d: "drop 100 [0..<101] = [100]" by (simp add: drop_upt)
  show ?thesis
    using clear_chat_history_result [OF u,
        of "\<lparr>chats = (\<lambda>u. map (\<lambda>i. \<lparr>timestamp = int i, sender = ''user'', content = ''m'',
                                     channel = None\<rparr>) [0..<101]),
           moods = (\<lambda>u. []), clock = 101\<rparr>"]
    by (simp add: batch_size_def drop_map d)
qed



section \<open>Mood insights and statistics: properties\<close>

lemma py_index_first: "xs \<noteq> [] \<Longrightarrow> py_index xs 0 = Inr (hd xs)"
  by (cases xs) (simp_all add: py_index_def)

lemma py_index_last:
  assumes "xs \<noteq> []"
  shows "py_index xs (- 1) = Inr (last xs)"
proof -
  from assms have pos: "1 \<le> length xs"
    by (cases xs) simp_all
  have n: "nat (int (length xs) + - 1) = length xs - 1"
    by simp
  from assms pos n show ?thesis
    by (simp add: py_index_def last_conv_nth)
qed

lemma py_index_previous: "2 \<le> length xs \<Longrightarrow> py_index xs (- 2) = Inr (last (butlast xs))"
proof -
  assume a: "2 \<le> length xs"
  then have ne: "butlast xs \<noteq> []" by (cases xs) auto
  have n: "nat (int (length xs) + - 2) = length xs - 2" by simp
  have "last (butlast xs) = butlast xs ! (length (butlast xs) - 1)"
    using ne by (rule last_conv_nth)
  also have "\<dots> = xs ! (length xs - 2)"
    using a by (simp add: nth_butlast numeral_2_eq_2)
  finally show ?thesis
    using a n by (simp add: py_index_def)
qed

lemma classify_trend_eq:
  assumes "3 \<le> length ss"
  shows "classify_trend ss =
     Inr (if last ss > hd ss \<and> last (butlast ss) > hd ss then ''improving''
          else if last ss < hd ss \<and> last (butlast ss) < hd ss then ''declining''
          else ''stable'')"
proof -
  from assms have ne: "ss \<noteq> []" and two: "2 \<le> length ss" by auto
  show ?thesis
    using assms
    by (simp add: classify_trend_def bind_r_def py_index_first [OF ne] py_index_last [OF ne]
        py_index_previous [OF two])
qed


text \<open>
  Claim C7. On at least three entries the trend is \<open>improving\<close> exactly when the last and the
  second-to-last score both exceed the first, \<open>declining\<close> exactly when both are below it,
  and \<open>stable\<close> otherwise. The direction is a function of the first, the last and the
  second-to-last score alone, whatever lies between them.
\<close>

theorem trend_classification:
  assumes "3 \<le> length entries"
  shows "\<exists>ins t. generate_mood_insights_body entries = Inr ins \<and> trends ins = Some t \<and>
     direction t =
       (let ss = insight_scores entries;
            oldest = hd ss; newest = last ss; previous = last (butlast ss)
        in if newest > oldest \<and> previous > oldest then ''improving''
           else if newest < oldest \<and> previous < oldest then ''declining''
           else ''stable'')"
proof -
  have len: "3 \<le> length (insight_scores entries)"
    using assms by (simp add: insight_scores_def)
  show ?thesis
    using assms
    by (simp add: generate_mood_insights_body_def Let_def bind_r_def
        classify_trend_eq [OF len])
qed

text \<open>The scores 3, 3, 3, 3, 8, 9, 9 give \<open>improving\<close>.\<close>

theorem trend_classification_witness:
  "3 \<le> length (map (\<lambda>s. \<lparr>timestamp = 0, score = Some s, label = JNull, mood_notes = JNull\<rparr>)
                   [3, 3, 3, 3, 8, 9, 9])
   \<and> (\<exists>ins t. generate_mood_insights_body
                (map (\<lambda>s. \<lparr>timestamp = 0, score = Some s, label = JNull, mood_notes = JNull\<rparr>)
                   [3, 3, 3, 3, 8, 9, 9]) = Inr ins
        \<and> trends ins = Some t \<and> direction t = ''improving'')"
  using trend_classification
    [of "map (\<lambda>s. \<lparr>timestamp = 0, score = Some s, label = JNull, mood_notes = JNull\<rparr>)
           [3, 3, 3, 3, 8, 9, 9]"]
  by (simp add: insight_scores_def)

text \<open>The scores 8, 8, 8, 8, 3, 2, 2 give \<open>declining\<close>, and 5, 6, 5, 6, 5 give \<open>stable\<close>.\<close>

lemma trend_examples:
  "map (\<lambda>r. map_option direction (trends r))
     (map (\<lambda>ss. case generate_mood_insights_body
                    (map (\<lambda>s. \<lparr>timestamp = 0, score = Some s, label = JNull, mood_notes = JNull\<rparr>) ss)
                  of Inr r \<Rightarrow> r)
        [[8, 8, 8, 8, 3, 2, 2], [5, 6, 5, 6, 5]])
   = [Some ''declining'', Some ''stable'']"
  by (simp add: generate_mood_insights_body_def insight_scores_def classify_trend_def
      py_index_def bind_r_def Let_def)




lemma py_max_Max:
  assumes "ss \<noteq> []"
  shows "py_max ss = Inr (Max (set ss))"
proof (cases ss)
  case Nil
  with assms show ?thesis by simp
next
  case (Cons x xs)
  show ?thesis
    unfolding Cons using Max.set_eq_fold [of x xs] by simp
qed

lemma py_min_Min:
  assumes "ss \<noteq> []"
  shows "py_min ss = Inr (Min (set ss))"
proof (cases ss)
  case Nil
  with assms show ?thesis by simp
next
  case (Cons x xs)
  show ?thesis
    unfolding Cons using Min.set_eq_fold [of x xs] by simp
qed

text \<open>
  Claim C9. The statistics of the empty list are a count of 0 with no average, highest or
  lowest value. On a non-empty list of entries that all carry a score, the average is the
  arithmetic mean of the scores, the highest and lowest values are their maximum and
  minimum, and the count is the number of entries.
\<close>

theorem summary_statistics_correct:
  "calculate_mood_statistics [] =
     Inr \<lparr>stats.average = None, highest = None, lowest = None, count = 0\<rparr>
   \<and> (entries \<noteq> [] \<and> map score entries = map Some ss \<longrightarrow>
        calculate_mood_statistics entries =
          Inr \<lparr>stats.average = Some (of_int (sum_list ss) / of_int (int (length ss))),
               highest = Some (Max (set ss)), lowest = Some (Min (set ss)),
               count = length entries\<rparr>)"
proof (intro conjI impI)
  show "calculate_mood_statistics [] =
     Inr \<lparr>stats.average = None, highest = None, lowest = None, count = 0\<rparr>"
    by (simp add: calculate_mood_statistics_def)
next
  assume a: "entries \<noteq> [] \<and> map score entries = map Some ss"
  then have "map (\<lambda>v. case v of None \<Rightarrow> 0 | Some s \<Rightarrow> s) (map score entries)
             = map (\<lambda>v. case v of None \<Rightarrow> 0 | Some s \<Rightarrow> s) (map Some ss)"
    by simp
  then have sc: "map (\<lambda>entry. case score entry of None \<Rightarrow> 0 | Some s \<Rightarrow> s) entries = ss"
    by (simp add: comp_def)
  from a have len: "length entries = length ss"
    by (metis length_map)
  with a have ne: "ss \<noteq> []" by auto
  show "calculate_mood_statistics entries =
          Inr \<lparr>stats.average = Some (of_int (sum_list ss) / of_int (int (length ss))),
               highest = Some (Max (set ss)), lowest = Some (Min (set ss)),
               count = length entries\<rparr>"
    using a ne len
    by (simp add: calculate_mood_statistics_def sc Let_def bind_r_def mean_def
        py_max_Max [OF ne] py_min_Min [OF ne])
qed

text \<open>The scores 2 and 8: average 5, highest 8, lowest 2, count 2.\<close>

theorem summary_statistics_correct_witness:
  "[\<lparr>timestamp = 0, score = Some 2, label = JNull, mood_notes = JNull\<rparr>,
    \<lparr>timestamp = 1, score = Some 8, label = JNull, mood_notes = JNull\<rparr>] \<noteq> []
   \<and> map score [\<lparr>timestamp = 0, score = Some 2, label = JNull, mood_notes = JNull\<rparr>,
                \<lparr>timestamp = 1, score = Some 8, label = JNull, mood_notes = JNull\<rparr>]
       = map Some [2, 8]
   \<and> calculate_mood_statistics
        [\<lparr>timestamp = 0, score = Some 2, label = JNull, mood_notes = JNull\<rparr>,
         \<lparr>timestamp = 1, score = Some 8, label = JNull, mood_notes = JNull\<rparr>]
       = Inr \<lparr>stats.average = Some 5, highest = Some 8, lowest = Some 2, count = 2\<rparr>"
  using summary_statistics_correct
    [of "[\<lparr>timestamp = 0, score = Some 2, label = JNull, mood_notes = JNull\<rparr>,
          \<lparr>timestamp = 1, score = Some 8, label = JNull, mood_notes = JNull\<rparr>]" "[2, 8]"]
  by simp


section \<open>Logging a mood: properties\<close>













end
